theory Spec2Isabelle
  imports Complex_Main "HOL-Library.Word"
begin

section \<open>The robot spawner and frame capture window (spawn\_capture.py)\<close>

text \<open>
  The program is one window class, \<open>RSFCApp\<close>, with three event handlers:
  \<open>spawn_robot\<close> (button), \<open>update_camera_feed\<close> (subscriber callback) and
  \<open>capture_frame\<close> (button). The handlers mutate the window object and talk to
  collaborators outside the program: the Gazebo service, the ROS log, the wall clock and
  the file system. The embedding threads one record through every handler; the record
  holds the window's attributes and the part of the outside world the handlers touch.
  What an external call answers (the service's outcome, the clock's reading) is an
  argument of the handler.
\<close>

subsection \<open>Messages of the Gazebo service\<close>

text \<open>
  \<open>SetModelStateRequest\<close> carries one \<open>ModelState\<close>: a model name, a pose (position
  and orientation quaternion), a twist and a reference frame. The numeric fields are
  float64. The only arithmetic the program does on them is \<open>* -1\<close>, which is exact on
  every finite double, so the fields are modelled as reals.
\<close>

record point =
  point_x :: real
  point_y :: real
  point_z :: real

record quaternion =
  quat_x :: real
  quat_y :: real
  quat_z :: real
  quat_w :: real

record pose =
  position :: point
  orientation :: quaternion

record twist =
  linear :: point
  angular :: point

record model_state =
  model_name :: string
  pose :: pose
  twist :: twist
  reference_frame :: string

record set_model_state_request =
  model_state :: model_state

definition Point :: point where
  "Point = \<lparr>point_x = 0, point_y = 0, point_z = 0\<rparr>"

definition Quaternion :: quaternion where
  "Quaternion = \<lparr>quat_x = 0, quat_y = 0, quat_z = 0, quat_w = 0\<rparr>"

definition ModelState :: model_state where
  "ModelState =
     \<lparr>model_name = [],
      pose = \<lparr>position = Point, orientation = Quaternion\<rparr>,
      twist = \<lparr>linear = Point, angular = Point\<rparr>,
      reference_frame = []\<rparr>"

definition SetModelStateRequest :: set_model_state_request where
  "SetModelStateRequest = \<lparr>model_state = ModelState\<rparr>"

subsection \<open>Images\<close>

type_synonym byte = "8 word"

text \<open>
  An image message of the topic \<open>/R1/pi_camera/image_raw\<close>: height, width and the byte
  buffer. The handler asks for the encoding \<open>bgr8\<close>; the messages are taken to be in that
  encoding already (three bytes a pixel, no row padding), as the spec assumes.
\<close>

record image_msg =
  msg_height :: nat
  msg_width :: nat
  msg_data :: "byte list"

text \<open>The array \<open>imgmsg_to_cv2\<close> returns: its shape and its bytes in row-major order.\<close>

record cv_array =
  shape :: "nat \<times> nat \<times> nat"
  array_data :: "byte list"

text \<open>
  A \<open>QImage\<close> in format \<open>RGB888\<close>: width, height, the length of a scan line in bytes,
  and the bytes. The pixel in row \<open>r\<close> and column \<open>c\<close> is the three bytes that start at
  \<open>r * bytes_per_line + 3 * c\<close>, in the order red, green, blue.
\<close>

record qimage =
  img_width :: nat
  img_height :: nat
  bytes_per_line :: nat
  bits :: "byte list"

datatype py_exception =
    TypeError string
  | FileExistsError string
  | AttributeError string
  | ServiceException string
  | ROSInterruptException string

text \<open>
  \<open>CvBridge.imgmsg_to_cv2\<close> on a \<open>bgr8\<close> message wraps the buffer in an array of shape
  (height, width, 3); numpy refuses a buffer that is too small for the shape.
\<close>

definition imgmsg_to_cv2 :: "image_msg \<Rightarrow> py_exception + cv_array" where
  "imgmsg_to_cv2 data =
     (let n = msg_height data * msg_width data * 3 in
      if length (msg_data data) < n then Inl (TypeError ''buffer is too small for requested array'')
      else Inr \<lparr>shape = (msg_height data, msg_width data, 3),
                array_data = take n (msg_data data)\<rparr>)"

definition QImage :: "byte list \<Rightarrow> nat \<Rightarrow> nat \<Rightarrow> nat \<Rightarrow> qimage" where
  "QImage buf width height bpl =
     \<lparr>img_width = width, img_height = height, bytes_per_line = bpl, bits = buf\<rparr>"

definition byte_at :: "byte list \<Rightarrow> nat \<Rightarrow> byte" where
  "byte_at bs i = (if i < length bs then bs ! i else 0)"

text \<open>The three bytes of the pixel in row \<open>r\<close>, column \<open>c\<close>, in storage order.\<close>

definition pixel_bytes :: "qimage \<Rightarrow> nat \<Rightarrow> nat \<Rightarrow> byte list" where
  "pixel_bytes img r c =
     (let off = r * bytes_per_line img + 3 * c in
      [byte_at (bits img) off, byte_at (bits img) (off + 1), byte_at (bits img) (off + 2)])"

text \<open>
  \<open>QImage.rgbSwapped\<close> returns a new image of the same size and format in which the red
  and the blue byte of every pixel have changed places. The new image owns its buffer,
  whose scan lines Qt aligns to four bytes; the padding bytes are zero here.
\<close>

definition aligned_bytes_per_line :: "nat \<Rightarrow> nat" where
  "aligned_bytes_per_line width = ((width * 24 + 31) div 32) * 4"

definition swapped_row :: "qimage \<Rightarrow> nat \<Rightarrow> byte list" where
  "swapped_row img r =
     concat (map (\<lambda>c. rev (pixel_bytes img r c)) [0..<img_width img])
     @ replicate (aligned_bytes_per_line (img_width img) - 3 * img_width img) 0"

definition rgbSwapped :: "qimage \<Rightarrow> qimage" where
  "rgbSwapped img =
     \<lparr>img_width = img_width img, img_height = img_height img,
      bytes_per_line = aligned_bytes_per_line (img_width img),
      bits = concat (map (swapped_row img) [0..<img_height img])\<rparr>"

subsection \<open>The wall clock\<close>

record datetime =
  year :: nat
  month :: nat
  day :: nat
  hour :: nat
  minute :: nat
  second :: nat
  microsecond :: nat


definition digit_char :: "nat \<Rightarrow> char" where
  "digit_char d = ''0123456789'' ! (d mod 10)"

fun decimal :: "nat \<Rightarrow> string" where
  "decimal n = (if n < 10 then [digit_char n] else decimal (n div 10) @ [digit_char (n mod 10)])"

declare decimal.simps [simp del]

text \<open>A number in decimal, filled with zeros on the left up to the given width.\<close>

definition zero_padded :: "nat \<Rightarrow> nat \<Rightarrow> string" where
  "zero_padded w n = replicate (w - length (decimal n)) (CHR ''0'') @ decimal n"

text \<open>
  \<open>now.strftime("%Y-%m-%d_%H:%M:%S")\<close>, as the C library of the platform (glibc) formats
  it: \<open>%Y\<close> is the year in decimal without padding, so it has four digits from the year
  1000 on; the other fields are padded to two digits.
\<close>

definition strftime :: "datetime \<Rightarrow> string" where
  "strftime now =
     decimal (year now) @ ''-'' @ zero_padded 2 (month now) @ ''-'' @
     zero_padded 2 (day now) @ ''_'' @ zero_padded 2 (hour now) @ '':'' @
     zero_padded 2 (minute now) @ '':'' @ zero_padded 2 (second now)"

subsection \<open>The file system\<close>

text \<open>
  Directories and regular files by path. A screenshot file holds the PNG encoding of an
  image; the encoder is outside the program, so the content is the image under a
  constructor. Every call a handler makes on the file system is recorded in order.
\<close>

datatype file_content = PNG qimage | Bytes "byte list"

datatype fs_call = Exists string | Makedirs string | Save string

record filesystem =
  dirs :: "string set"
  files :: "string \<rightharpoonup> file_content"

definition os_path_exists :: "filesystem \<Rightarrow> string \<Rightarrow> bool" where
  "os_path_exists fs p = (p \<in> dirs fs \<or> files fs p \<noteq> None)"

text \<open>\<open>os.makedirs\<close> on a path of one component; it raises when the path exists.\<close>

definition os_makedirs :: "filesystem \<Rightarrow> string \<Rightarrow> py_exception + filesystem" where
  "os_makedirs fs p =
     (if os_path_exists fs p then Inl (FileExistsError p)
      else Inr (fs\<lparr>dirs := insert p (dirs fs)\<rparr>))"

definition os_path_join :: "string \<Rightarrow> string \<Rightarrow> string" where
  "os_path_join a b =
     (if b \<noteq> [] \<and> hd b = CHR ''/'' then b
      else if a = [] \<or> last a = CHR ''/'' then a @ b
      else a @ ''/'' @ b)"

text \<open>
  \<open>QImage.save(path, "PNG")\<close> raises nothing: it returns whether the file was written.
  It writes nothing for a null image (no width or no height), and the file can only be
  created inside an existing directory and not over a directory. The handler ignores
  the result. The argument \<open>folder\<close> is the directory part of \<open>path\<close>.
\<close>

definition isNull :: "qimage \<Rightarrow> bool" where
  "isNull img = (img_width img = 0 \<or> img_height img = 0)"

definition qimage_save :: "filesystem \<Rightarrow> qimage \<Rightarrow> string \<Rightarrow> string \<Rightarrow> filesystem \<times> bool" where
  "qimage_save fs img folder path =
     (if isNull img \<or> folder \<notin> dirs fs \<or> path \<in> dirs fs then (fs, False)
      else (fs\<lparr>files := (files fs)(path \<mapsto> PNG img)\<rparr>, True))"

subsection \<open>The window\<close>

text \<open>
  The attributes of \<open>RSFCApp\<close> the handlers use: the five spin boxes, the frame slot, the
  pixmap shown by the \<open>camera_feed\<close> label and the text of the \<open>capture_frame_output\<close>
  line; then the outside world: the file system with the calls made on it, the lines
  written by \<open>rospy.logerr\<close>, and the requests passed to the service proxy.
\<close>

record rsfc_app =
  coordinate_x :: real
  coordinate_y :: real
  coordinate_z :: real
  orientation_z :: real
  orientation_w :: real
  current_frame :: "qimage option"
  camera_feed :: "qimage option"
  capture_frame_output :: string
  fs :: filesystem
  fs_calls :: "fs_call list"
  rospy_log :: "string list"
  service_requests :: "set_model_state_request list"

text \<open>\<open>__init__\<close>: the slot starts as \<open>None\<close>; the widgets start as the .ui file has them.\<close>

definition init :: "rsfc_app \<Rightarrow> rsfc_app" where
  "init ui = ui\<lparr>current_frame := None\<rparr>"

subsection \<open>spawn\_robot\<close>

text \<open>Lines 49 to 63: the request built from the five spin boxes.\<close>

definition spawn_request :: "rsfc_app \<Rightarrow> set_model_state_request" where
  "spawn_request self =
     (let msg = SetModelStateRequest;
          ms = model_state msg;
          ms = ms\<lparr>model_name := ''R1''\<rparr>;
          ms = ms\<lparr>pose := (pose ms)\<lparr>position := (position (pose ms))\<lparr>point_x := coordinate_x self * -1\<rparr>\<rparr>\<rparr>;
          ms = ms\<lparr>pose := (pose ms)\<lparr>position := (position (pose ms))\<lparr>point_y := coordinate_y self * -1\<rparr>\<rparr>\<rparr>;
          ms = ms\<lparr>pose := (pose ms)\<lparr>position := (position (pose ms))\<lparr>point_z := coordinate_z self\<rparr>\<rparr>\<rparr>;
          ms = ms\<lparr>pose := (pose ms)\<lparr>orientation := (orientation (pose ms))\<lparr>quat_x := 0\<rparr>\<rparr>\<rparr>;
          ms = ms\<lparr>pose := (pose ms)\<lparr>orientation := (orientation (pose ms))\<lparr>quat_y := 0\<rparr>\<rparr>\<rparr>;
          ms = ms\<lparr>pose := (pose ms)\<lparr>orientation := (orientation (pose ms))\<lparr>quat_z := orientation_z self\<rparr>\<rparr>\<rparr>;
          ms = ms\<lparr>pose := (pose ms)\<lparr>orientation := (orientation (pose ms))\<lparr>quat_w := orientation_w self\<rparr>\<rparr>\<rparr>
      in msg\<lparr>model_state := ms\<rparr>)"

text \<open>
  What the \<open>try\<close> block can meet. \<open>rospy.wait_for_service\<close> is called without a
  timeout: while the service is not available it keeps waiting, so with a service that
  never becomes available the handler never returns; a shutdown interrupts the wait
  with \<open>ROSInterruptException\<close>, which the handler does not catch. Once the service
  is there, the proxy call either answers or raises \<open>rospy.ServiceException\<close>, which
  the handler catches and logs.
\<close>

datatype service_outcome =
    Responded
  | Raises_ServiceException string
  | Wait_Interrupted string
  | Service_Unavailable

text \<open>
  How the handler ends: it returns, an exception leaves it, or it never returns. The
  record is the window and the world as the handler left them, or keeps them while it
  waits.
\<close>

datatype ending = Returns | Raises py_exception | Never_returns

definition spawn_robot :: "service_outcome \<Rightarrow> rsfc_app \<Rightarrow> rsfc_app \<times> ending" where
  "spawn_robot outcome self =
     (let msg = spawn_request self in
      case outcome of
        Service_Unavailable \<Rightarrow> (self, Never_returns)
      | Wait_Interrupted e \<Rightarrow> (self, Raises (ROSInterruptException e))
      | Responded \<Rightarrow> (self\<lparr>service_requests := service_requests self @ [msg]\<rparr>, Returns)
      | Raises_ServiceException e \<Rightarrow>
          (self\<lparr>service_requests := service_requests self @ [msg],
                rospy_log := rospy_log self @ [e]\<rparr>, Returns))"

text \<open>
  The other two handlers make no call that can wait: they return the record after they
  ran and the exception that left them, if one did.
\<close>

subsection \<open>update\_camera\_feed\<close>

definition update_camera_feed :: "image_msg \<Rightarrow> rsfc_app \<Rightarrow> rsfc_app \<times> py_exception option" where
  "update_camera_feed data self =
     (case imgmsg_to_cv2 data of
        Inl e \<Rightarrow> (self, Some e)
      | Inr cv_image \<Rightarrow>
          (case shape cv_image of (height, width, channel) \<Rightarrow>
             let bytes_per_line = 3 * width;
                 frame = rgbSwapped (QImage (array_data cv_image) width height bytes_per_line)
             in (self\<lparr>current_frame := Some frame, camera_feed := Some frame\<rparr>, None)))"

subsection \<open>capture\_frame\<close>

text \<open>
  The test \<open>if self.current_frame:\<close> is Python truth of the slot: \<open>None\<close> is false, and
  a \<open>QImage\<close> object, which defines neither \<open>__bool__\<close> nor \<open>__len__\<close>, is true.
\<close>

definition truthy :: "qimage option \<Rightarrow> bool" where
  "truthy slot = (case slot of None \<Rightarrow> False | Some img \<Rightarrow> True)"

definition folder_path :: string where
  "folder_path = ''screenshots''"

definition capture_frame :: "datetime \<Rightarrow> rsfc_app \<Rightarrow> rsfc_app \<times> py_exception option" where
  "capture_frame now self =
     (if truthy (current_frame self) then
        let self = self\<lparr>fs_calls := fs_calls self @ [Exists folder_path]\<rparr> in
        case (if \<not> os_path_exists (fs self) folder_path
              then (case os_makedirs (fs self) folder_path of
                      Inl e \<Rightarrow> Inl (self\<lparr>fs_calls := fs_calls self @ [Makedirs folder_path]\<rparr>, e)
                    | Inr fs' \<Rightarrow> Inr (self\<lparr>fs := fs', fs_calls := fs_calls self @ [Makedirs folder_path]\<rparr>))
              else Inr self) of
          Inl (self, e) \<Rightarrow> (self, Some e)
        | Inr self \<Rightarrow>
            let timestamp = strftime now;
                screenshot_path = os_path_join folder_path (''camera_feed_screenshot_'' @ timestamp @ ''.png'')
            in (case current_frame self of
                  None \<Rightarrow> (self, Some (AttributeError ''save''))
                | Some frame \<Rightarrow>
                    let (fs', ok) = qimage_save (fs self) frame folder_path screenshot_path;
                        self = self\<lparr>fs := fs', fs_calls := fs_calls self @ [Save screenshot_path]\<rparr>
                    in (self\<lparr>capture_frame_output :=
                          ''Screenshot saved at '' @ timestamp @ '' in '' @ [CHR 0x27] @ ''pwd/'' @ folder_path @ [CHR 0x27]\<rparr>,
                        None))
      else (self\<lparr>capture_frame_output := ''No screenshot captured. Camera feed might be empty.''\<rparr>, None))"

subsection \<open>The events of a run\<close>

text \<open>
  The window reacts to three kinds of event. An exception that leaves a handler is
  reported by the runtime that delivered the event; the record stays as the handler
  left it. While \<open>spawn_robot\<close> waits the window handles no further click; the
  sequences below are not restricted to those, which only makes a statement about all
  of them say more.
\<close>

datatype event =
    Image_Message image_msg
  | Spawn_Click service_outcome
  | Capture_Click datetime

fun handle :: "event \<Rightarrow> rsfc_app \<Rightarrow> rsfc_app" where
  "handle (Image_Message data) self = fst (update_camera_feed data self)"
| "handle (Spawn_Click outcome) self = fst (spawn_robot outcome self)"
| "handle (Capture_Click now) self = fst (capture_frame now self)"

fun run :: "event list \<Rightarrow> rsfc_app \<Rightarrow> rsfc_app" where
  "run [] self = self"
| "run (e # es) self = run es (handle e self)"

subsection \<open>Notions the properties are stated with\<close>

text \<open>
  The bitmap \<open>update_camera_feed\<close> computes from a message, and the messages
  \<open>imgmsg_to_cv2\<close> accepts.
\<close>

definition decoded_frame :: "image_msg \<Rightarrow> qimage" where
  "decoded_frame data =
     rgbSwapped (QImage (take (msg_height data * msg_width data * 3) (msg_data data))
                   (msg_width data) (msg_height data) (3 * msg_width data))"

definition decodable :: "image_msg \<Rightarrow> bool" where
  "decodable data = (msg_height data * msg_width data * 3 \<le> length (msg_data data))"

text \<open>The image message delivered last in a sequence of events.\<close>

fun last_image :: "event list \<Rightarrow> image_msg option" where
  "last_image [] = None"
| "last_image (e # es) =
     (case last_image es of
        Some m \<Rightarrow> Some m
      | None \<Rightarrow> (case e of Image_Message m \<Rightarrow> Some m | _ \<Rightarrow> None))"

text \<open>The last delivered image message among those that decode.\<close>

fun last_decoded :: "event list \<Rightarrow> image_msg option" where
  "last_decoded [] = None"
| "last_decoded (e # es) =
     (case last_decoded es of
        Some m \<Rightarrow> Some m
      | None \<Rightarrow>
          (case e of Image_Message m \<Rightarrow> if decodable m then Some m else None | _ \<Rightarrow> None))"







text \<open>Two clock readings within the same second.\<close>

definition same_second :: "datetime \<Rightarrow> datetime \<Rightarrow> bool" where
  "same_second a b =
     (year a = year b \<and> month a = month b \<and> day a = day b \<and>
      hour a = hour b \<and> minute a = minute b \<and> second a = second b)"

text \<open>The file name of the spec: \<open>camera_feed_screenshot_<timestamp>.png\<close> under \<open>screenshots\<close>.\<close>

definition screenshot_file :: "datetime \<Rightarrow> string" where
  "screenshot_file now = ''screenshots/camera_feed_screenshot_'' @ strftime now @ ''.png''"

definition saved_status :: "datetime \<Rightarrow> string" where
  "saved_status now =
     ''Screenshot saved at '' @ strftime now @ '' in '' @ [CHR 0x27] @ ''pwd/screenshots'' @ [CHR 0x27]"

text \<open>The file system after the directory test and, where it is taken, \<open>os.makedirs\<close>.\<close>

definition ensured :: "filesystem \<Rightarrow> filesystem" where
  "ensured fsys =
     (if os_path_exists fsys ''screenshots'' then fsys
      else fsys\<lparr>dirs := insert ''screenshots'' (dirs fsys)\<rparr>)"

subsection \<open>Concrete inputs\<close>

definition msg_2x1 :: image_msg where
  "msg_2x1 = \<lparr>msg_height = 1, msg_width = 2, msg_data = [1, 2, 3, 4, 5, 6]\<rparr>"

definition msg_1x1 :: image_msg where
  "msg_1x1 = \<lparr>msg_height = 1, msg_width = 1, msg_data = [7, 8, 9]\<rparr>"

definition msg_short :: image_msg where
  "msg_short = \<lparr>msg_height = 1, msg_width = 1, msg_data = [7, 8]\<rparr>"


definition frame_2x1 :: qimage where
  "frame_2x1 = \<lparr>img_width = 2, img_height = 1, bytes_per_line = 8, bits = [3, 2, 1, 6, 5, 4, 0, 0]\<rparr>"

definition t0 :: datetime where
  "t0 = \<lparr>year = 2024, month = 3, day = 7, hour = 9, minute = 5, second = 42, microsecond = 123456\<rparr>"

definition t1 :: datetime where
  "t1 = \<lparr>year = 2024, month = 3, day = 7, hour = 9, minute = 5, second = 42, microsecond = 999999\<rparr>"

definition ui0 :: rsfc_app where
  "ui0 =
     \<lparr>coordinate_x = 1, coordinate_y = 2, coordinate_z = 3, orientation_z = 0, orientation_w = 1,
      current_frame = None, camera_feed = None, capture_frame_output = [],
      fs = \<lparr>dirs = {}, files = Map.empty\<rparr>, fs_calls = [], rospy_log = [],
      service_requests = []\<rparr>"

definition with_frame :: rsfc_app where
  "with_frame = ui0\<lparr>current_frame := Some frame_2x1, camera_feed := Some frame_2x1\<rparr>"

definition with_folder :: rsfc_app where
  "with_folder = with_frame\<lparr>fs := \<lparr>dirs = {''screenshots''}, files = Map.empty\<rparr>\<rparr>"

definition events0 :: "event list" where
  "events0 = [Image_Message msg_1x1, Capture_Click t0, Spawn_Click Responded, Image_Message msg_2x1]"

section \<open>The pose request\<close>

text \<open>
  C1. For every reading (x, y, z, orientation z, orientation w) of the five spin boxes,
  the request that \<open>spawn_robot\<close> builds names the model R1, has position (-x, -y, z) and
  orientation (0, 0, orientation z, orientation w); it is the request handed to the
  service proxy whenever the handler reaches the call.
\<close>

theorem spawn_robot_pose_request:
  "model_name (model_state (spawn_request self)) = ''R1'' \<and>
   point_x (position (pose (model_state (spawn_request self)))) = - coordinate_x self \<and>
   point_y (position (pose (model_state (spawn_request self)))) = - coordinate_y self \<and>
   point_z (position (pose (model_state (spawn_request self)))) = coordinate_z self \<and>
   quat_x (orientation (pose (model_state (spawn_request self)))) = 0 \<and>
   quat_y (orientation (pose (model_state (spawn_request self)))) = 0 \<and>
   quat_z (orientation (pose (model_state (spawn_request self)))) = orientation_z self \<and>
   quat_w (orientation (pose (model_state (spawn_request self)))) = orientation_w self \<and>
   service_requests (fst (spawn_robot Responded self)) = service_requests self @ [spawn_request self] \<and>
   service_requests (fst (spawn_robot (Raises_ServiceException e) self))
     = service_requests self @ [spawn_request self]"
  by (simp add: spawn_request_def spawn_robot_def SetModelStateRequest_def ModelState_def
      Point_def Quaternion_def Let_def)


section \<open>The frame receiver\<close>

subsection \<open>Reading a buffer made of rows of equal length\<close>

lemma nth_concat_uniform:
  "\<forall>xs \<in> set xss. length xs = n \<Longrightarrow> i < length xss \<Longrightarrow> k < n \<Longrightarrow>
   concat xss ! (i * n + k) = xss ! i ! k"
proof (induction xss arbitrary: i)
  case Nil
  then show ?case by simp
next
  case (Cons xs xss)
  show ?case
  proof (cases i)
    case 0
    with Cons.prems show ?thesis by (simp add: nth_append)
  next
    case (Suc j)
    with Cons.prems have "concat xss ! (j * n + k) = xss ! j ! k"
      using Cons.IH [of j] by simp
    with Suc Cons.prems show ?thesis by (simp add: nth_append)
  qed
qed

lemma length_concat_uniform:
  "\<forall>xs \<in> set xss. length xs = n \<Longrightarrow> length (concat xss) = length xss * n"
  by (induction xss) auto

lemma aligned_ge: "3 * w \<le> aligned_bytes_per_line w"
  unfolding aligned_bytes_per_line_def by arith

lemma length_pixels_row:
  "length (concat (map (\<lambda>c. rev (pixel_bytes img r c)) [0..<w])) = w * 3"
  using length_concat_uniform [of "map (\<lambda>c. rev (pixel_bytes img r c)) [0..<w]" 3]
  by (simp add: pixel_bytes_def Let_def)

lemma length_swapped_row: "length (swapped_row img r) = aligned_bytes_per_line (img_width img)"
  using aligned_ge [of "img_width img"]
  by (simp add: swapped_row_def length_pixels_row)

lemma length_bits_rgbSwapped:
  "length (bits (rgbSwapped img)) = img_height img * aligned_bytes_per_line (img_width img)"
  using length_concat_uniform [of "map (swapped_row img) [0..<img_height img]"
      "aligned_bytes_per_line (img_width img)"]
  by (simp add: rgbSwapped_def length_swapped_row)

lemma bits_rgbSwapped_nth:
  assumes "r < img_height img" "k < aligned_bytes_per_line (img_width img)"
  shows "bits (rgbSwapped img) ! (r * aligned_bytes_per_line (img_width img) + k)
         = swapped_row img r ! k"
  using nth_concat_uniform [of "map (swapped_row img) [0..<img_height img]"
      "aligned_bytes_per_line (img_width img)" r k] assms
  by (simp add: rgbSwapped_def length_swapped_row)

lemma swapped_row_nth:
  assumes "c < img_width img" "k < 3"
  shows "swapped_row img r ! (c * 3 + k) = rev (pixel_bytes img r c) ! k"
proof -
  have "c * 3 + k < img_width img * 3" using assms by arith
  then have "swapped_row img r ! (c * 3 + k)
      = concat (map (\<lambda>c. rev (pixel_bytes img r c)) [0..<img_width img]) ! (c * 3 + k)"
    by (simp add: swapped_row_def nth_append length_pixels_row)
  also have "\<dots> = map (\<lambda>c. rev (pixel_bytes img r c)) [0..<img_width img] ! c ! k"
    using assms by (intro nth_concat_uniform) (auto simp: pixel_bytes_def Let_def)
  finally show ?thesis using assms by simp
qed

lemma byte_at_rgbSwapped:
  assumes "r < img_height img" "c < img_width img" "k < 3"
  shows "byte_at (bits (rgbSwapped img)) (r * bytes_per_line (rgbSwapped img) + 3 * c + k)
         = rev (pixel_bytes img r c) ! k"
proof -
  let ?bpl = "aligned_bytes_per_line (img_width img)"
  have bpl: "bytes_per_line (rgbSwapped img) = ?bpl" by (simp add: rgbSwapped_def)
  have "3 * c + k < 3 * img_width img" using assms by arith
  then have k: "c * 3 + k < ?bpl" using aligned_ge [of "img_width img"] by arith
  have "r * ?bpl + (c * 3 + k) < r * ?bpl + ?bpl" using k by simp
  also have "\<dots> = Suc r * ?bpl" by simp
  also have "\<dots> \<le> img_height img * ?bpl" using assms(1) by (intro mult_le_mono1) simp
  finally have inr: "r * ?bpl + (c * 3 + k) < length (bits (rgbSwapped img))"
    by (simp add: length_bits_rgbSwapped)
  have "byte_at (bits (rgbSwapped img)) (r * ?bpl + (c * 3 + k))
        = bits (rgbSwapped img) ! (r * ?bpl + (c * 3 + k))"
    using inr by (simp add: byte_at_def)
  also have "\<dots> = swapped_row img r ! (c * 3 + k)"
    using bits_rgbSwapped_nth [OF assms(1) k] .
  also have "\<dots> = rev (pixel_bytes img r c) ! k"
    using swapped_row_nth [OF assms(2,3)] .
  finally show ?thesis by (simp add: bpl add.assoc mult.commute)
qed

lemma pixel_bytes_rgbSwapped:
  assumes "r < img_height img" "c < img_width img"
  shows "pixel_bytes (rgbSwapped img) r c = rev (pixel_bytes img r c)"
proof -
  have "byte_at (bits (rgbSwapped img)) (r * bytes_per_line (rgbSwapped img) + 3 * c + k)
         = rev (pixel_bytes img r c) ! k" if "k < 3" for k
    using byte_at_rgbSwapped [OF assms that] .
  from this [of 0] this [of 1] this [of 2]
  show ?thesis
    by (simp add: pixel_bytes_def [of "rgbSwapped img"] Let_def add.assoc)
      (simp add: pixel_bytes_def Let_def)
qed

subsection \<open>What the handler stores\<close>

lemma update_camera_feed_ok:
  "decodable data \<Longrightarrow>
   update_camera_feed data self
   = (self\<lparr>current_frame := Some (decoded_frame data), camera_feed := Some (decoded_frame data)\<rparr>, None)"
  by (simp add: update_camera_feed_def imgmsg_to_cv2_def decoded_frame_def decodable_def Let_def)

lemma update_camera_feed_raises:
  "\<not> decodable data \<Longrightarrow>
   \<exists>e. update_camera_feed data self = (self, Some e)"
  by (simp add: update_camera_feed_def imgmsg_to_cv2_def decodable_def Let_def)

lemma pixel_offset_in_buffer:
  assumes "r < h" "c < w" "k < 3"
  shows "r * (3 * w) + 3 * c + k < h * w * (3::nat)"
proof -
  have "3 * c + k < 3 * w" using assms by arith
  then have "r * (3 * w) + 3 * c + k < r * (3 * w) + 3 * w" by arith
  also have "\<dots> = Suc r * (3 * w)" by simp
  also have "\<dots> \<le> h * (3 * w)" using assms(1) by (intro mult_le_mono1) simp
  finally show ?thesis by (simp add: mult.assoc mult.commute)
qed

lemma pixel_bytes_QImage:
  assumes "r < h" "c < w" "h * w * 3 \<le> length buf"
  shows "pixel_bytes (QImage (take (h * w * 3) buf) w h (3 * w)) r c
         = [buf ! (r * (3 * w) + 3 * c), buf ! (r * (3 * w) + 3 * c + 1), buf ! (r * (3 * w) + 3 * c + 2)]"
proof -
  have "r * (3 * w) + 3 * c + k < h * w * 3" if "k < 3" for k
    using pixel_offset_in_buffer [OF assms(1,2) that] .
  from this [of 0] this [of 1] this [of 2] assms(3)
  show ?thesis
    by (simp add: pixel_bytes_def QImage_def Let_def byte_at_def)
qed

text \<open>
  C2. For an image message of width W and height H whose buffer holds 3 * W * H bytes,
  \<open>update_camera_feed\<close> stores a bitmap of width W and height H in which the three
  bytes of the pixel in row r and column c are those of the buffer at the offset of that
  pixel (row stride 3 * W), in reverse order, for every r < H and c < W.
\<close>

theorem update_camera_feed_reverses_channels:
  assumes "length (msg_data data) = 3 * msg_width data * msg_height data"
    and "r < msg_height data" and "c < msg_width data"
  shows "update_camera_feed data self
           = (self\<lparr>current_frame := Some (decoded_frame data),
                    camera_feed := Some (decoded_frame data)\<rparr>, None) \<and>
         img_width (decoded_frame data) = msg_width data \<and>
         img_height (decoded_frame data) = msg_height data \<and>
         pixel_bytes (decoded_frame data) r c
           = rev [msg_data data ! (r * (3 * msg_width data) + 3 * c),
                  msg_data data ! (r * (3 * msg_width data) + 3 * c + 1),
                  msg_data data ! (r * (3 * msg_width data) + 3 * c + 2)]"
proof -
  let ?h = "msg_height data" and ?w = "msg_width data"
  let ?src = "QImage (take (?h * ?w * 3) (msg_data data)) ?w ?h (3 * ?w)"
  have len: "?h * ?w * 3 \<le> length (msg_data data)" using assms(1) by (simp add: mult.commute)
  have dims: "img_height ?src = ?h" "img_width ?src = ?w" by (simp_all add: QImage_def)
  have "pixel_bytes (decoded_frame data) r c = rev (pixel_bytes ?src r c)"
    unfolding decoded_frame_def using assms(2,3) dims by (intro pixel_bytes_rgbSwapped) simp_all
  moreover note pixel_bytes_QImage [OF assms(2,3) len]
  moreover have "img_width (decoded_frame data) = ?w" "img_height (decoded_frame data) = ?h"
    by (simp_all add: decoded_frame_def rgbSwapped_def QImage_def)
  ultimately show ?thesis using update_camera_feed_ok [of data self] len
    by (simp add: decodable_def)
qed

theorem update_camera_feed_reverses_channels_witness:
  "length (msg_data msg_2x1) = 3 * msg_width msg_2x1 * msg_height msg_2x1 \<and>
   0 < msg_height msg_2x1 \<and> 1 < msg_width msg_2x1 \<and>
   pixel_bytes (decoded_frame msg_2x1) 0 1 = [6, 5, 4]"
  using update_camera_feed_reverses_channels [of msg_2x1 0 1]
  by (simp add: msg_2x1_def)

section \<open>The timestamp\<close>


















subsection \<open>The timestamp holds the clock reading\<close>








lemma strftime_same_second: "same_second a b \<Longrightarrow> strftime a = strftime b"
  by (simp add: strftime_def same_second_def)





lemma same_second_t0_t1: "same_second t0 t1"
  by (simp add: same_second_def t0_def t1_def)

section \<open>The frame capturer\<close>

lemma screenshot_path_join:
  "os_path_join folder_path (''camera_feed_screenshot_'' @ strftime now @ ''.png'') = screenshot_file now"
  by (simp add: os_path_join_def folder_path_def screenshot_file_def)

lemma capture_frame_present:
  assumes "current_frame self = Some frame"
  shows "capture_frame now self =
     (self\<lparr>fs := fst (qimage_save (ensured (fs self)) frame ''screenshots'' (screenshot_file now)),
            fs_calls := fs_calls self @ Exists ''screenshots'' #
              (if os_path_exists (fs self) ''screenshots'' then [] else [Makedirs ''screenshots''])
              @ [Save (screenshot_file now)],
            capture_frame_output := saved_status now\<rparr>, None)"
  using assms
  by (simp add: capture_frame_def truthy_def os_makedirs_def ensured_def saved_status_def
      folder_path_def os_path_join_def screenshot_file_def Let_def split: prod.splits)

lemma capture_frame_absent:
  assumes "current_frame self = None"
  shows "capture_frame now self =
     (self\<lparr>capture_frame_output := ''No screenshot captured. Camera feed might be empty.''\<rparr>, None)"
  using assms by (simp add: capture_frame_def truthy_def)


lemma files_ensured: "files (ensured fsys) = files fsys"
  by (simp add: ensured_def)

lemma dirs_ensured:
  "files fsys ''screenshots'' = None \<Longrightarrow> dirs (ensured fsys) = insert ''screenshots'' (dirs fsys)"
  by (auto simp: ensured_def os_path_exists_def)

lemma exists_ensured: "os_path_exists (ensured fsys) ''screenshots''"
  by (simp add: ensured_def os_path_exists_def)

lemma qimage_save_written:
  "\<not> isNull img \<Longrightarrow> folder \<in> dirs fsys \<Longrightarrow> path \<notin> dirs fsys \<Longrightarrow>
   qimage_save fsys img folder path = (fsys\<lparr>files := (files fsys)(path \<mapsto> PNG img)\<rparr>, True)"
  by (simp add: qimage_save_def)

lemma dirs_qimage_save: "dirs (fst (qimage_save fsys img folder path)) = dirs fsys"
  by (simp add: qimage_save_def)

lemma files_qimage_save_changed:
  "files (fst (qimage_save fsys img folder path)) p \<noteq> files fsys p \<Longrightarrow>
   files (fst (qimage_save fsys img folder path)) p = Some (PNG img)"
  by (auto simp: qimage_save_def split: if_splits)

lemma exists_qimage_save:
  "os_path_exists fsys p \<Longrightarrow> os_path_exists (fst (qimage_save fsys img folder path)) p"
  by (auto simp: qimage_save_def os_path_exists_def)

lemma qimage_save_twice:
  "fst (qimage_save (fst (qimage_save fsys img folder path)) img folder path)
   = fst (qimage_save fsys img folder path)"
  by (simp add: qimage_save_def)

lemma ensured_exists: "os_path_exists fsys ''screenshots'' \<Longrightarrow> ensured fsys = fsys"
  by (simp add: ensured_def)

lemma current_frame_capture_frame: "current_frame (fst (capture_frame now self)) = current_frame self"
  by (cases "current_frame self") (simp_all add: capture_frame_present capture_frame_absent)

lemma files_capture_frame_changed:
  assumes "current_frame self = Some frame"
    and "files (fs (fst (capture_frame now self))) p \<noteq> files (fs self) p"
  shows "files (fs (fst (capture_frame now self))) p = Some (PNG frame)"
proof -
  let ?saved = "fst (qimage_save (ensured (fs self)) frame ''screenshots'' (screenshot_file now))"
  have eq: "files (fs (fst (capture_frame now self))) = files ?saved"
    by (simp add: capture_frame_present [OF assms(1)])
  with assms(2) have "files ?saved p \<noteq> files (ensured (fs self)) p"
    by (simp add: files_ensured)
  from files_qimage_save_changed [OF this] show ?thesis by (simp add: eq)
qed


lemma files_capture_frame_written:
  assumes "current_frame self = Some frame" and "\<not> isNull frame"
    and "files (fs self) ''screenshots'' = None"
    and "screenshot_file now \<notin> dirs (fs self)"
  shows "files (fs (fst (capture_frame now self)))
           = (files (fs self))(screenshot_file now \<mapsto> PNG frame)"
proof -
  let ?fs1 = "ensured (fs self)"
  have d: "''screenshots'' \<in> dirs ?fs1" using assms(3) by (simp add: dirs_ensured)
  have nd: "screenshot_file now \<notin> dirs ?fs1"
    using assms(3,4) by (simp add: dirs_ensured screenshot_file_def)
  have sv: "fst (qimage_save ?fs1 frame ''screenshots'' (screenshot_file now))
            = ?fs1\<lparr>files := (files ?fs1)(screenshot_file now \<mapsto> PNG frame)\<rparr>"
    using qimage_save_written [OF assms(2) d nd] by simp
  show ?thesis
    by (simp add: capture_frame_present [OF assms(1)] sv files_ensured)
qed

lemma run_one_message:
  "decodable m \<Longrightarrow>
   run [Image_Message m] self
   = self\<lparr>current_frame := Some (decoded_frame m), camera_feed := Some (decoded_frame m)\<rparr>"
  by (simp add: update_camera_feed_ok)






text \<open>
  C4. When the slot is empty, \<open>capture_frame\<close> makes no call on the file system, leaves
  the file system as it is and sets the status line to the fixed message.
\<close>

theorem capture_frame_without_frame:
  assumes "current_frame self = None"
  shows "capture_frame now self
           = (self\<lparr>capture_frame_output := ''No screenshot captured. Camera feed might be empty.''\<rparr>, None) \<and>
         fs (fst (capture_frame now self)) = fs self \<and>
         fs_calls (fst (capture_frame now self)) = fs_calls self \<and>
         capture_frame_output (fst (capture_frame now self))
           = ''No screenshot captured. Camera feed might be empty.''"
  by (simp add: capture_frame_absent [OF assms])

theorem capture_frame_without_frame_witness:
  "current_frame ui0 = None \<and>
   fs (fst (capture_frame t0 ui0)) = fs ui0 \<and>
   fs_calls (fst (capture_frame t0 ui0)) = [] \<and>
   capture_frame_output (fst (capture_frame t0 ui0))
     = ''No screenshot captured. Camera feed might be empty.''"
  using capture_frame_without_frame [of ui0 t0]
  by (simp add: ui0_def)

text \<open>
  C5. Two captures within the same wall-clock second, with the frame unchanged, compute
  the same timestamp and the same path; the second capture finds the directory, makes
  its \<open>save\<close> call on the path the first one used, and leaves the file system exactly as
  the first capture left it: no second file appears.
\<close>

theorem capture_twice_same_second:
  assumes "same_second now now'" and "current_frame self = Some frame"
  shows "strftime now' = strftime now \<and>
         screenshot_file now' = screenshot_file now \<and>
         current_frame (fst (capture_frame now self)) = Some frame \<and>
         fs (fst (capture_frame now' (fst (capture_frame now self))))
           = fs (fst (capture_frame now self)) \<and>
         dom (files (fs (fst (capture_frame now' (fst (capture_frame now self))))))
           = dom (files (fs (fst (capture_frame now self)))) \<and>
         fs_calls (fst (capture_frame now' (fst (capture_frame now self))))
           = fs_calls (fst (capture_frame now self))
             @ [Exists ''screenshots'', Save (screenshot_file now)] \<and>
         last (fs_calls (fst (capture_frame now self))) = Save (screenshot_file now) \<and>
         capture_frame_output (fst (capture_frame now' (fst (capture_frame now self))))
           = capture_frame_output (fst (capture_frame now self))"
proof -
  let ?s1 = "fst (capture_frame now self)"
  let ?f1 = "fst (qimage_save (ensured (fs self)) frame ''screenshots'' (screenshot_file now))"
  have ts: "strftime now' = strftime now"
    using assms(1) by (simp add: strftime_same_second)
  then have path: "screenshot_file now' = screenshot_file now"
    by (simp add: screenshot_file_def)
  have status: "saved_status now' = saved_status now"
    using ts by (simp add: saved_status_def)
  have frame1: "current_frame ?s1 = Some frame"
    using assms(2) by (simp add: current_frame_capture_frame)
  have fs1: "fs ?s1 = ?f1"
    by (simp add: capture_frame_present [OF assms(2)])
  have ex1: "os_path_exists (fs ?s1) ''screenshots''"
    unfolding fs1 by (intro exists_qimage_save exists_ensured)
  have second: "capture_frame now' ?s1 =
     (?s1\<lparr>fs := fst (qimage_save (fs ?s1) frame ''screenshots'' (screenshot_file now)),
            fs_calls := fs_calls ?s1 @ [Exists ''screenshots'', Save (screenshot_file now)],
            capture_frame_output := saved_status now\<rparr>, None)"
    using capture_frame_present [OF frame1, of now'] ex1
    by (simp add: path status ensured_exists)
  have same_fs: "fs (fst (capture_frame now' ?s1)) = fs ?s1"
    unfolding second by (simp add: fs1 qimage_save_twice)
  have calls: "fs_calls (fst (capture_frame now' ?s1))
                 = fs_calls ?s1 @ [Exists ''screenshots'', Save (screenshot_file now)]"
    unfolding second by simp
  have lst: "last (fs_calls ?s1) = Save (screenshot_file now)"
    by (simp add: capture_frame_present [OF assms(2)])
  have out: "capture_frame_output (fst (capture_frame now' ?s1)) = capture_frame_output ?s1"
    unfolding second by (simp add: capture_frame_present [OF assms(2)])
  show ?thesis
    using ts path frame1 same_fs calls lst out by simp
qed

theorem capture_twice_same_second_witness:
  "same_second t0 t1 \<and> current_frame with_frame = Some frame_2x1 \<and>
   microsecond t0 \<noteq> microsecond t1 \<and>
   screenshot_file t1 = screenshot_file t0 \<and>
   fs (fst (capture_frame t1 (fst (capture_frame t0 with_frame))))
     = fs (fst (capture_frame t0 with_frame)) \<and>
   last (fs_calls (fst (capture_frame t0 with_frame))) = Save (screenshot_file t0)"
proof -
  have h1: "same_second t0 t1" by (rule same_second_t0_t1)
  have h2: "current_frame with_frame = Some frame_2x1" by (simp add: with_frame_def ui0_def)
  have m: "microsecond t0 \<noteq> microsecond t1" by (simp add: t0_def t1_def)
  show ?thesis using capture_twice_same_second [OF h1 h2] h1 h2 m by simp
qed

text \<open>
  C8. When the slot holds a frame, \<open>capture_frame\<close> raises nothing, whether the
  directory \<open>screenshots\<close> is there or not: it tests for the directory first, creates it
  when it is missing and only then makes the \<open>save\<close> call; when the directory is there
  it goes on to the \<open>save\<close> call at once. Afterwards the directory exists, and the PNG
  of a real bitmap is in it.
\<close>

theorem capture_frame_ensures_directory:
  assumes "current_frame self = Some frame"
    and "files (fs self) ''screenshots'' = None"
  shows "snd (capture_frame now self) = None \<and>
         ''screenshots'' \<in> dirs (fs (fst (capture_frame now self))) \<and>
         dirs (fs (fst (capture_frame now self))) = insert ''screenshots'' (dirs (fs self)) \<and>
         fs_calls (fst (capture_frame now self)) = fs_calls self @
           (if ''screenshots'' \<in> dirs (fs self)
            then [Exists ''screenshots'', Save (screenshot_file now)]
            else [Exists ''screenshots'', Makedirs ''screenshots'', Save (screenshot_file now)]) \<and>
         (\<not> isNull frame \<and> screenshot_file now \<notin> dirs (fs self) \<longrightarrow>
            files (fs (fst (capture_frame now self))) (screenshot_file now) = Some (PNG frame))"
proof -
  let ?fs1 = "ensured (fs self)"
  have ex: "os_path_exists (fs self) ''screenshots'' = (''screenshots'' \<in> dirs (fs self))"
    using assms(2) by (simp add: os_path_exists_def)
  have d: "dirs ?fs1 = insert ''screenshots'' (dirs (fs self))"
    using assms(2) by (rule dirs_ensured)
  have dirs: "dirs (fs (fst (capture_frame now self))) = insert ''screenshots'' (dirs (fs self))"
    by (simp add: capture_frame_present [OF assms(1)] dirs_qimage_save d)
  have calls: "fs_calls (fst (capture_frame now self)) = fs_calls self @
           (if ''screenshots'' \<in> dirs (fs self)
            then [Exists ''screenshots'', Save (screenshot_file now)]
            else [Exists ''screenshots'', Makedirs ''screenshots'', Save (screenshot_file now)])"
    by (simp add: capture_frame_present [OF assms(1)] ex)
  have written: "files (fs (fst (capture_frame now self))) (screenshot_file now) = Some (PNG frame)"
    if "\<not> isNull frame" "screenshot_file now \<notin> dirs (fs self)"
  proof -
    have "screenshot_file now \<notin> dirs ?fs1"
      using that(2) by (simp add: d screenshot_file_def)
    moreover have "''screenshots'' \<in> dirs ?fs1" by (simp add: d)
    ultimately have "fst (qimage_save ?fs1 frame ''screenshots'' (screenshot_file now))
            = ?fs1\<lparr>files := (files ?fs1)(screenshot_file now \<mapsto> PNG frame)\<rparr>"
      using qimage_save_written [OF that(1), of "''screenshots''" ?fs1 "screenshot_file now"] by simp
    then show ?thesis by (simp add: capture_frame_present [OF assms(1)])
  qed
  have exn: "snd (capture_frame now self) = None"
    by (simp add: capture_frame_present [OF assms(1)])
  show ?thesis using exn dirs calls written by simp
qed

theorem capture_frame_ensures_directory_witness:
  "current_frame with_frame = Some frame_2x1 \<and> files (fs with_frame) ''screenshots'' = None \<and>
   ''screenshots'' \<notin> dirs (fs with_frame) \<and>
   current_frame with_folder = Some frame_2x1 \<and> files (fs with_folder) ''screenshots'' = None \<and>
   ''screenshots'' \<in> dirs (fs with_folder) \<and>
   \<not> isNull frame_2x1 \<and>
   snd (capture_frame t0 with_frame) = None \<and>
   ''screenshots'' \<in> dirs (fs (fst (capture_frame t0 with_frame))) \<and>
   fs_calls (fst (capture_frame t0 with_frame))
     = [Exists ''screenshots'', Makedirs ''screenshots'', Save (screenshot_file t0)] \<and>
   files (fs (fst (capture_frame t0 with_frame))) (screenshot_file t0) = Some (PNG frame_2x1) \<and>
   snd (capture_frame t0 with_folder) = None \<and>
   fs_calls (fst (capture_frame t0 with_folder))
     = [Exists ''screenshots'', Save (screenshot_file t0)] \<and>
   files (fs (fst (capture_frame t0 with_folder))) (screenshot_file t0) = Some (PNG frame_2x1)"
  using capture_frame_ensures_directory [of with_frame frame_2x1 t0]
    capture_frame_ensures_directory [of with_folder frame_2x1 t0]
  by (simp add: with_folder_def with_frame_def ui0_def frame_2x1_def isNull_def screenshot_file_def)

section \<open>The pose submitter leaves the window alone\<close>

text \<open>
  C7. When the proxy call raises \<open>rospy.ServiceException\<close>, \<open>spawn_robot\<close> writes the
  error to the log and returns normally; the frame slot, the status line, the preview
  and the file system are as they were. When the service is unavailable the handler
  waits for it: it writes nothing to the log and does not return, and the whole record
  stays as it was.
\<close>

theorem spawn_robot_service_failure:
  "spawn_robot (Raises_ServiceException e) self
     = (self\<lparr>service_requests := service_requests self @ [spawn_request self],
              rospy_log := rospy_log self @ [e]\<rparr>, Returns) \<and>
   rospy_log (fst (spawn_robot (Raises_ServiceException e) self)) = rospy_log self @ [e] \<and>
   snd (spawn_robot (Raises_ServiceException e) self) = Returns \<and>
   current_frame (fst (spawn_robot (Raises_ServiceException e) self)) = current_frame self \<and>
   capture_frame_output (fst (spawn_robot (Raises_ServiceException e) self))
     = capture_frame_output self \<and>
   camera_feed (fst (spawn_robot (Raises_ServiceException e) self)) = camera_feed self \<and>
   fs (fst (spawn_robot (Raises_ServiceException e) self)) = fs self \<and>
   fs_calls (fst (spawn_robot (Raises_ServiceException e) self)) = fs_calls self \<and>
   spawn_robot Service_Unavailable self = (self, Never_returns)"
  by (simp add: spawn_robot_def Let_def)

text \<open>
  The claim as worded, that the handler logs the error and returns also when the service
  is unavailable, fails: with a service that never becomes available the handler does
  not return, and the log stays empty.
\<close>

theorem spawn_robot_unavailable_counterexample:
  "snd (spawn_robot Service_Unavailable ui0) \<noteq> Returns \<and>
   snd (spawn_robot Service_Unavailable ui0) = Never_returns \<and>
   rospy_log (fst (spawn_robot Service_Unavailable ui0)) = []"
  by (simp add: spawn_robot_def Let_def ui0_def)

text \<open>
  C10. On every path \<open>spawn_robot\<close> leaves the frame slot, the status line, the preview
  and the five input fields as they were, and the file system too: the record after the
  handler differs from the one before at most in the requests handed to the service and
  in the log, and the log grows only when the call raised \<open>ServiceException\<close>.
\<close>

theorem spawn_robot_window_unchanged:
  "current_frame (fst (spawn_robot outcome self)) = current_frame self \<and>
   capture_frame_output (fst (spawn_robot outcome self)) = capture_frame_output self \<and>
   camera_feed (fst (spawn_robot outcome self)) = camera_feed self \<and>
   coordinate_x (fst (spawn_robot outcome self)) = coordinate_x self \<and>
   coordinate_y (fst (spawn_robot outcome self)) = coordinate_y self \<and>
   coordinate_z (fst (spawn_robot outcome self)) = coordinate_z self \<and>
   orientation_z (fst (spawn_robot outcome self)) = orientation_z self \<and>
   orientation_w (fst (spawn_robot outcome self)) = orientation_w self \<and>
   fs (fst (spawn_robot outcome self)) = fs self \<and>
   fs_calls (fst (spawn_robot outcome self)) = fs_calls self \<and>
   fst (spawn_robot outcome self)
     = self\<lparr>service_requests := service_requests (fst (spawn_robot outcome self)),
             rospy_log := rospy_log (fst (spawn_robot outcome self))\<rparr> \<and>
   rospy_log (fst (spawn_robot outcome self))
     = (case outcome of Raises_ServiceException e \<Rightarrow> rospy_log self @ [e] | _ \<Rightarrow> rospy_log self)"
  by (cases outcome) (simp_all add: spawn_robot_def Let_def)

section \<open>The frame slot along a run\<close>

lemma current_frame_spawn_robot: "current_frame (fst (spawn_robot outcome self)) = current_frame self"
  by (cases outcome) (simp_all add: spawn_robot_def Let_def)

lemma current_frame_update_camera_feed:
  "decodable data \<Longrightarrow> current_frame (fst (update_camera_feed data self)) = Some (decoded_frame data)"
  by (simp add: update_camera_feed_ok)

lemma update_camera_feed_undecodable:
  "\<not> decodable data \<Longrightarrow> fst (update_camera_feed data self) = self"
  using update_camera_feed_raises [of data self] by auto

lemma current_frame_handle:
  "current_frame (handle e self)
   = (case e of
        Image_Message m \<Rightarrow> if decodable m then Some (decoded_frame m) else current_frame self
      | _ \<Rightarrow> current_frame self)"
  by (cases e)
    (simp_all add: current_frame_update_camera_feed update_camera_feed_undecodable
      current_frame_spawn_robot current_frame_capture_frame)

lemma current_frame_run:
  "current_frame (run evs self)
   = (case last_decoded evs of None \<Rightarrow> current_frame self | Some m \<Rightarrow> Some (decoded_frame m))"
proof (induction evs arbitrary: self)
  case Nil
  show ?case by simp
next
  case (Cons e es)
  show ?case
    by (simp add: Cons.IH current_frame_handle split: option.splits event.splits)
qed


lemma last_decoded_all_decodable:
  "\<forall>m. Image_Message m \<in> set evs \<longrightarrow> decodable m \<Longrightarrow> last_decoded evs = last_image evs"
  by (induction evs) (auto split: option.splits event.splits)

lemma last_decoded_append_message:
  "decodable m \<Longrightarrow> last_decoded (evs @ [Image_Message m]) = Some m"
  by (induction evs) simp_all

lemma current_frame_init: "current_frame (init ui) = None"
  by (simp add: init_def)

lemma current_frame_run_init:
  "current_frame (run evs (init ui)) = map_option decoded_frame (last_decoded evs)"
  by (simp add: current_frame_run current_frame_init split: option.splits)

lemma not_decodable_msg_short: "\<not> decodable msg_short"
  by (simp add: decodable_def msg_short_def)

lemma decodable_msg_2x1: "decodable msg_2x1"
  by (simp add: decodable_def msg_2x1_def)

lemma decodable_msg_1x1: "decodable msg_1x1"
  by (simp add: decodable_def msg_1x1_def)

text \<open>
  C6. A delivered message that decodes overwrites the slot whatever it held; one that
  does not decode raises before the assignment and leaves everything as it was. So along
  any run of the window the slot holds the bitmap of the last delivered message among
  those that decoded (and nothing before the first of them): of the most recent
  message whenever the delivered messages decode. A capture at any point of the run
  reads that bitmap, and a file it writes or changes holds its PNG. No older frame is
  kept anywhere.
\<close>

theorem current_frame_is_latest_message:
  "(decodable data \<longrightarrow>
      current_frame (fst (update_camera_feed data self)) = Some (decoded_frame data)) \<and>
   (\<not> decodable data \<longrightarrow> (\<exists>e. update_camera_feed data self = (self, Some e))) \<and>
   current_frame (run evs (init ui)) = map_option decoded_frame (last_decoded evs) \<and>
   ((\<forall>m. Image_Message m \<in> set evs \<longrightarrow> decodable m) \<longrightarrow>
      current_frame (run evs (init ui)) = map_option decoded_frame (last_image evs)) \<and>
   (decodable data \<longrightarrow>
      current_frame (run (evs @ [Image_Message data]) (init ui)) = Some (decoded_frame data)) \<and>
   (files (fs (fst (capture_frame now (run evs (init ui))))) p
      \<noteq> files (fs (run evs (init ui))) p \<longrightarrow>
    (\<exists>m. last_decoded evs = Some m \<and>
         files (fs (fst (capture_frame now (run evs (init ui))))) p
           = Some (PNG (decoded_frame m))))"
proof -
  have slot: "current_frame (run evs (init ui)) = map_option decoded_frame (last_decoded evs)"
    by (rule current_frame_run_init)
  have all: "current_frame (run evs (init ui)) = map_option decoded_frame (last_image evs)"
    if "\<forall>m. Image_Message m \<in> set evs \<longrightarrow> decodable m"
    using slot last_decoded_all_decodable [OF that] by simp
  have latest: "current_frame (run (evs @ [Image_Message data]) (init ui)) = Some (decoded_frame data)"
    if "decodable data"
    using current_frame_run_init [of "evs @ [Image_Message data]" ui]
      last_decoded_append_message [OF that, of evs] by simp
  have written: "\<exists>m. last_decoded evs = Some m \<and>
               files (fs (fst (capture_frame now (run evs (init ui))))) p
                 = Some (PNG (decoded_frame m))"
    if changed: "files (fs (fst (capture_frame now (run evs (init ui))))) p
            \<noteq> files (fs (run evs (init ui))) p"
  proof (cases "last_decoded evs")
    case None
    then have "current_frame (run evs (init ui)) = None" using slot by simp
    then have "fs (fst (capture_frame now (run evs (init ui)))) = fs (run evs (init ui))"
      by (simp add: capture_frame_absent)
    with changed show ?thesis by simp
  next
    case (Some m)
    then have "current_frame (run evs (init ui)) = Some (decoded_frame m)" using slot by simp
    from files_capture_frame_changed [OF this changed] Some show ?thesis by simp
  qed
  show ?thesis
    using slot all latest written current_frame_update_camera_feed [of data self]
      update_camera_feed_raises [of data self]
    by blast
qed

theorem current_frame_is_latest_message_witness:
  "decodable msg_1x1 \<and> decodable msg_2x1 \<and> \<not> decodable msg_short \<and>
   fst (update_camera_feed msg_short with_frame) = with_frame \<and>
   current_frame (fst (update_camera_feed msg_1x1 with_frame)) = Some (decoded_frame msg_1x1) \<and>
   current_frame (run events0 (init ui0)) = Some (decoded_frame msg_2x1) \<and>
   current_frame (run (events0 @ [Image_Message msg_1x1]) (init ui0)) = Some (decoded_frame msg_1x1) \<and>
   files (fs (fst (capture_frame t0 (run [Image_Message msg_2x1] (init ui0))))) (screenshot_file t0)
     \<noteq> files (fs (run [Image_Message msg_2x1] (init ui0))) (screenshot_file t0) \<and>
   files (fs (fst (capture_frame t0 (run [Image_Message msg_2x1] (init ui0))))) (screenshot_file t0)
     = Some (PNG (decoded_frame msg_2x1))"
proof -
  note d1 = decodable_msg_1x1 and d2 = decodable_msg_2x1 and ns = not_decodable_msg_short
  have all: "\<forall>m. Image_Message m \<in> set events0 \<longrightarrow> decodable m"
    using d1 d2 by (auto simp: events0_def)
  have l0: "last_image events0 = Some msg_2x1" by (simp add: events0_def)
  have "\<exists>e. update_camera_feed msg_short with_frame = (with_frame, Some e)"
    using current_frame_is_latest_message [of msg_short with_frame] ns by blast
  then have raises: "fst (update_camera_feed msg_short with_frame) = with_frame"
    by auto
  have over: "current_frame (fst (update_camera_feed msg_1x1 with_frame)) = Some (decoded_frame msg_1x1)"
    using current_frame_is_latest_message [of msg_1x1 with_frame] d1 by blast
  have "current_frame (run events0 (init ui0)) = map_option decoded_frame (last_image events0)"
    using current_frame_is_latest_message [of msg_1x1 with_frame events0 ui0] all by blast
  then have r0: "current_frame (run events0 (init ui0)) = Some (decoded_frame msg_2x1)"
    by (simp only: l0 option.map)
  have r1: "current_frame (run (events0 @ [Image_Message msg_1x1]) (init ui0))
              = Some (decoded_frame msg_1x1)"
    using current_frame_is_latest_message [of msg_1x1 with_frame events0 ui0] d1 by blast
  define s where "s = run [Image_Message msg_2x1] (init ui0)"
  have s: "s = (init ui0)\<lparr>current_frame := Some (decoded_frame msg_2x1),
                          camera_feed := Some (decoded_frame msg_2x1)\<rparr>"
    unfolding s_def using d2 by (rule run_one_message)
  have "files (fs (fst (capture_frame t0 s)))
          = (files (fs s))(screenshot_file t0 \<mapsto> PNG (decoded_frame msg_2x1))"
    by (rule files_capture_frame_written)
      (simp_all add: s init_def ui0_def isNull_def decoded_frame_def rgbSwapped_def QImage_def
        msg_2x1_def)
  moreover have "files (fs s) (screenshot_file t0) = None"
    by (simp add: s init_def ui0_def)
  ultimately have changed: "files (fs (fst (capture_frame t0 s))) (screenshot_file t0)
     \<noteq> files (fs s) (screenshot_file t0)" by simp
  have "\<exists>m. last_decoded [Image_Message msg_2x1] = Some m \<and>
          files (fs (fst (capture_frame t0 s))) (screenshot_file t0) = Some (PNG (decoded_frame m))"
    using current_frame_is_latest_message [of msg_1x1 with_frame "[Image_Message msg_2x1]" ui0 t0
        "screenshot_file t0"] changed
    unfolding s_def by blast
  then have content: "files (fs (fst (capture_frame t0 s))) (screenshot_file t0)
     = Some (PNG (decoded_frame msg_2x1))"
    using d2 by simp
  show ?thesis
    using d1 d2 ns raises over r0 r1 changed content unfolding s_def by blast
qed

text \<open>
  The claim as worded, with every delivered message overwriting the slot, fails for a
  message that does not decode: delivered after a good one it raises, and the slot
  still holds the older bitmap, which is not what the newer buffer holds.
\<close>

theorem stale_frame_counterexample:
  "fst (update_camera_feed msg_short (run [Image_Message msg_2x1] (init ui0)))
     = run [Image_Message msg_2x1] (init ui0) \<and>
   snd (update_camera_feed msg_short (run [Image_Message msg_2x1] (init ui0))) \<noteq> None \<and>
   current_frame (run [Image_Message msg_2x1, Image_Message msg_short] (init ui0))
     = Some (decoded_frame msg_2x1) \<and>
   decoded_frame msg_2x1 \<noteq> decoded_frame msg_short"
proof -
  define s where "s = run [Image_Message msg_2x1] (init ui0)"
  have a: "fst (update_camera_feed msg_short s) = s"
    using not_decodable_msg_short by (rule update_camera_feed_undecodable)
  obtain e where "update_camera_feed msg_short s = (s, Some e)"
    using update_camera_feed_raises [OF not_decodable_msg_short, of s] by blast
  then have b: "snd (update_camera_feed msg_short s) \<noteq> None" by simp
  have "last_decoded [Image_Message msg_2x1, Image_Message msg_short] = Some msg_2x1"
    using decodable_msg_2x1 not_decodable_msg_short by simp
  then have c: "current_frame (run [Image_Message msg_2x1, Image_Message msg_short] (init ui0))
     = Some (decoded_frame msg_2x1)"
    using current_frame_run_init [of "[Image_Message msg_2x1, Image_Message msg_short]" ui0]
    by (simp only: option.map)
  have "img_width (decoded_frame msg_2x1) \<noteq> img_width (decoded_frame msg_short)"
    by (simp add: decoded_frame_def rgbSwapped_def QImage_def msg_2x1_def msg_short_def)
  then have d: "decoded_frame msg_2x1 \<noteq> decoded_frame msg_short" by auto
  show ?thesis using a b c d unfolding s_def by blast
qed




end
